theory Spec2Isabelle
  imports Main "HOL-Library.Word"
begin

unbundle bit_operations_syntax

section \<open>Bytes and constant-time comparison\<close>

text \<open>
  Go strings are byte sequences, and so are HOL strings: \<open>[]byte(s)\<close> reads each
  character as its byte.
\<close>

type_synonym byte = "8 word"

definition bytes_of :: "string \<Rightarrow> byte list" where
  "bytes_of s = map of_char s"

text \<open>
  \<open>crypto/subtle\<close>, as \<open>main.go\<close> calls it at line 143. The loop
  \<^verbatim>\<open>for i := 0; i < len(x); i++ { v |= x[i] ^ y[i] }\<close> runs over both slices
  in step; it is entered only when the lengths agree.
\<close>

fun xor_acc :: "byte \<Rightarrow> byte list \<Rightarrow> byte list \<Rightarrow> byte" where
  "xor_acc v (a # x) (b # y) = xor_acc (v OR (a XOR b)) x y"
| "xor_acc v _ _ = v"

definition ConstantTimeByteEq :: "byte \<Rightarrow> byte \<Rightarrow> int" where
  "ConstantTimeByteEq x y = uint (drop_bit 31 ((ucast (x XOR y) :: 32 word) - 1))"

definition ConstantTimeCompare :: "byte list \<Rightarrow> byte list \<Rightarrow> int" where
  "ConstantTimeCompare x y =
     (if length x \<noteq> length y then 0 else ConstantTimeByteEq (xor_acc 0 x y) 0)"

section \<open>Strings\<close>

definition HasPrefix :: "string \<Rightarrow> string \<Rightarrow> bool" where
  "HasPrefix s p = (length p \<le> length s \<and> take (length p) s = p)"

definition TrimPrefix :: "string \<Rightarrow> string \<Rightarrow> string" where
  "TrimPrefix s p = (if HasPrefix s p then drop (length p) s else s)"

section \<open>Requests\<close>

text \<open>
  \<open>url.Values\<close> and \<open>http.Header\<close> are both \<open>map[string][]string\<close>. \<open>Get\<close>
  returns the first value stored under the key, and the empty string when there is none.
  \<open>http.Header.Get\<close> looks names up without regard to case; the header map here is keyed
  by the names as the handler spells them.
\<close>

type_synonym Values = "string \<rightharpoonup> string list"

definition Values_Get :: "Values \<Rightarrow> string \<Rightarrow> string" where
  "Values_Get v k = (case v k of None \<Rightarrow> [] | Some [] \<Rightarrow> [] | Some (x # _) \<Rightarrow> x)"

definition Values_Del :: "Values \<Rightarrow> string \<Rightarrow> Values" where
  "Values_Del v k = v(k := None)"

text \<open>
  The request as the \<open>/serve\<close> handler sees it. \<open>URL_Query\<close> is the query string in
  parsed form: \<open>r.URL.Query()\<close> reads it and \<open>r.URL.RawQuery = q.Encode()\<close> writes
  it back.
\<close>

record request =
  URL_Path :: string
  URL_Query :: Values
  Header :: Values

section \<open>Configuration\<close>

text \<open>
  The fields of the loaded configuration that \<open>main\<close> hands to the routes and services.
  \<open>Environment\<close> is compared with the constant \<open>EnvironmentDevelopment\<close>, which the
  functions below take as the parameter \<open>dev\<close>.
\<close>

record Config =
  Environment :: string
  UploadPath :: string
  LevelDBPath :: string
  SecretKey :: string
  SignatureSecretKey :: string
  MaxUploadSize :: nat
  Public :: string

record keyval_Config =
  BasePath :: string
  kv_UploadPath :: string
  kv_LevelDBPath :: string
  SoftDelete :: bool
  SignSecret :: string
  MaxSize :: nat
  AllowedMimeTypes :: "string list"
  Debug :: bool

text \<open>\<open>main.go\<close>, lines 44 and 50 to 60.\<close>

definition debug :: "string \<Rightarrow> Config \<Rightarrow> bool" where
  "debug dev cfg = (Environment cfg = dev)"

definition kv_config :: "string \<Rightarrow> Config \<Rightarrow> keyval_Config" where
  "kv_config dev cfg =
     \<lparr> BasePath = ''/blob'',
       kv_UploadPath = UploadPath cfg,
       kv_LevelDBPath = LevelDBPath cfg,
       SoftDelete = True,
       SignSecret = SignatureSecretKey cfg,
       MaxSize = MaxUploadSize cfg,
       AllowedMimeTypes = [''image/''],
       Debug = debug dev cfg \<rparr>"

record imagor_Config =
  im_UploadPath :: string
  im_MaxUploadSize :: nat
  im_SignSecret :: string
  im_Debug :: bool

text \<open>\<open>main.go\<close>, lines 67 to 81 (the fields that do not concern access are left out).\<close>

definition imagor_config :: "string \<Rightarrow> Config \<Rightarrow> imagor_Config" where
  "imagor_config dev cfg =
     \<lparr> im_UploadPath = UploadPath cfg,
       im_MaxUploadSize = MaxUploadSize cfg,
       im_SignSecret = SignatureSecretKey cfg,
       im_Debug = debug dev cfg \<rparr>"

text \<open>The warnings logged at startup, lines 101 to 106.\<close>

definition startup_warnings :: "string \<Rightarrow> Config \<Rightarrow> string list" where
  "startup_warnings dev cfg =
     (if Environment cfg = dev
      then [''running in development mode, signed URLs are not required''] else []) @
     (if SecretKey cfg = ''''
      then [''no secret key provided, API key verification is disabled''] else [])"

section \<open>The handler of GET /serve/*\<close>

text \<open>
  The handler either answers itself (status and body) or passes the rewritten request on
  to \<open>imagorService.ServeHTTP\<close>. \<open>sign.Sign\<close> is the parameter \<open>sign\<close>.
\<close>

datatype serve_outcome = Responded nat string | ServeHTTP request

text \<open>Lines 132 to 136: the signature of the request, query parameter first.\<close>

definition request_sig :: "request \<Rightarrow> string" where
  "request_sig r =
     (let sig = Values_Get (URL_Query r) ''x-signature''
      in if sig = '''' then Values_Get (Header r) ''x-signature'' else sig)"

text \<open>
  Lines 137 to 151: the token under which the request is served, or the response that
  ends the request.
\<close>

definition serve_token ::
  "(string \<Rightarrow> string \<Rightarrow> string) \<Rightarrow> Config \<Rightarrow> request \<Rightarrow> (nat \<times> string) + string" where
  "serve_token sign cfg r =
     (let sig = request_sig r in
      if sig = '''' then
        (let apiKey = Values_Get (Header r) ''x-api-key'' in
         if apiKey \<noteq> '''' then
           (if ConstantTimeCompare (bytes_of apiKey) (bytes_of (SecretKey cfg)) \<noteq> 1
            then Inl (401, ''unauthorized'')
            else Inr (sign (URL_Path r) (SignatureSecretKey cfg)))
         else Inr ''unsafe'')
      else Inr sig)"

text \<open>Lines 152 to 155: the rewritten request.\<close>

definition rewrite :: "string \<Rightarrow> request \<Rightarrow> request" where
  "rewrite sig r =
     r\<lparr> URL_Path := ''/'' @ sig @ TrimPrefix (URL_Path r) ''/serve'',
        URL_Query := Values_Del (URL_Query r) ''x-signature'' \<rparr>"

definition serve_handler ::
  "(string \<Rightarrow> string \<Rightarrow> string) \<Rightarrow> Config \<Rightarrow> request \<Rightarrow> serve_outcome" where
  "serve_handler sign cfg r =
     (case serve_token sign cfg r of
        Inl (status, body) \<Rightarrow> Responded status body
      | Inr sig \<Rightarrow> ServeHTTP (rewrite sig r))"

section \<open>The routes\<close>

text \<open>
  \<open>app.Get(path, handler, middleware...)\<close> registers a route whose middleware runs
  in front of its handler. The table lists the routes in the order of lines 129 to 166;
  \<open>hc\<close> is the constant \<open>mw.HealthCheckEndpoint\<close>.
\<close>

datatype handler =
    HealthChecker | ServeImages | KvServeHTTP | SignatureServeHTTP
  | VerifyAccess | VerifyAPIKey

record route =
  r_method :: string
  r_path :: string
  r_handler :: handler
  r_middleware :: "handler list"

definition routes :: "string \<Rightarrow> Config \<Rightarrow> route list" where
  "routes hc cfg =
     [ \<lparr> r_method = ''GET'', r_path = hc, r_handler = HealthChecker, r_middleware = [] \<rparr>,
       \<lparr> r_method = ''GET'', r_path = ''/serve/*'', r_handler = ServeImages, r_middleware = [] \<rparr>,
       \<lparr> r_method = ''GET'', r_path = ''/blob'', r_handler = KvServeHTTP,
         r_middleware = [VerifyAccess] \<rparr>,
       (if Public cfg = ''true''
        then \<lparr> r_method = ''GET'', r_path = ''/blob/*'', r_handler = KvServeHTTP,
               r_middleware = [] \<rparr>
        else \<lparr> r_method = ''GET'', r_path = ''/blob/*'', r_handler = KvServeHTTP,
               r_middleware = [VerifyAccess] \<rparr>),
       \<lparr> r_method = ''PUT'', r_path = ''/blob/*'', r_handler = KvServeHTTP,
         r_middleware = [VerifyAccess] \<rparr>,
       \<lparr> r_method = ''DELETE'', r_path = ''/blob/*'', r_handler = KvServeHTTP,
         r_middleware = [VerifyAccess] \<rparr>,
       \<lparr> r_method = ''GET'', r_path = ''/sign/*'', r_handler = SignatureServeHTTP,
         r_middleware = [VerifyAPIKey] \<rparr> ]"

definition guarded :: "route \<Rightarrow> bool" where
  "guarded rt = (VerifyAccess \<in> set (r_middleware rt))"

text \<open>The routes that lead to the blob store, each with its method, path and guard.\<close>

definition store_routes :: "route list \<Rightarrow> (string \<times> string \<times> bool) list" where
  "store_routes rs =
     map (\<lambda>rt. (r_method rt, r_path rt, guarded rt))
       (filter (\<lambda>rt. r_handler rt = KvServeHTTP) rs)"

section \<open>The signer\<close>

datatype verdict = Valid | Invalid | Expired

record token =
  t_expiry :: "nat option"
  t_mac :: "byte list"

text \<open>
  Modelled from the spec: the canonical form that is signed (the signer, packages
  \<open>client/sign\<close> and \<open>internal/app/signature\<close>, is not among the sources). It is
  the decoded request path, concatenated with the expiry if there is one. The spec leaves
  the text of an expiry open; it is the parameter \<open>etext\<close>.
\<close>

definition canonicalize :: "(nat \<Rightarrow> string) \<Rightarrow> string \<Rightarrow> nat option \<Rightarrow> string" where
  "canonicalize etext path expiry =
     path @ (case expiry of None \<Rightarrow> [] | Some e \<Rightarrow> etext e)"

text \<open>
  Modelled from the spec: \<open>Sign(path, secret, expiry?)\<close>, not among the sources. The
  token carries \<open>mac = keyedHash(secret, canonicalize(path, expiry))\<close> and the expiry;
  the keyed hash is the parameter \<open>kh\<close>. Omitting the expiry gives a perpetual token.
\<close>

definition Sign ::
  "(string \<Rightarrow> string \<Rightarrow> byte list) \<Rightarrow> (nat \<Rightarrow> string) \<Rightarrow>
     string \<Rightarrow> string \<Rightarrow> nat option \<Rightarrow> token" where
  "Sign kh etext path secret expiry =
     \<lparr> t_expiry = expiry, t_mac = kh secret (canonicalize etext path expiry) \<rparr>"

text \<open>
  Modelled from the spec: \<open>Verify(path, token, secret, now)\<close>, not among the sources.
  The mac of the token is compared in constant time with the mac of the path under the
  secret; a token whose mac is right and whose expiry has passed is \<open>Expired\<close>, an
  outcome of its own.
\<close>

definition Verify ::
  "(string \<Rightarrow> string \<Rightarrow> byte list) \<Rightarrow> (nat \<Rightarrow> string) \<Rightarrow>
     string \<Rightarrow> token \<Rightarrow> string \<Rightarrow> nat \<Rightarrow> verdict" where
  "Verify kh etext path tok secret now =
     (if ConstantTimeCompare (t_mac tok)
           (kh secret (canonicalize etext path (t_expiry tok))) \<noteq> 1
      then Invalid
      else (case t_expiry tok of
              None \<Rightarrow> Valid
            | Some e \<Rightarrow> if e < now then Expired else Valid))"

section \<open>The blob store\<close>

record BlobMetadata =
  md_key :: string
  contentType :: string
  sizeBytes :: nat
  checksum :: string
  createdAt :: nat
  modifiedAt :: nat
  deletedAt :: "nat option"
  etag :: string

text \<open>
  The error taxonomy of the spec, with \<open>Cancelled\<close> for a client that disconnects in
  the middle of an upload.
\<close>

datatype error =
    Unauthorized | Forbidden | NotFound | PreconditionFailed | PayloadTooLarge
  | UnsupportedMediaType | ExpiredToken | IOError | Cancelled

text \<open>
  The metadata index (one record per key), the content files (one per key) and the
  temporary file of the upload in progress.
\<close>

record store =
  index :: "string \<rightharpoonup> BlobMetadata"
  content :: "string \<rightharpoonup> byte list"
  temp :: "byte list option"

subsection \<open>The metadata index\<close>

text \<open>
  Modelled from the spec: \<open>Get(key)\<close> of the metadata index (package
  \<open>internal/app/keyval\<close> is not among the sources). It returns NotFound if the record is
  absent or, under the soft-delete policy, tombstoned.
\<close>

definition Index_Get ::
  "bool \<Rightarrow> (string \<rightharpoonup> BlobMetadata) \<Rightarrow> string \<Rightarrow> error + BlobMetadata" where
  "Index_Get soft idx k =
     (case idx k of
        None \<Rightarrow> Inl NotFound
      | Some m \<Rightarrow> if soft \<and> deletedAt m \<noteq> None then Inl NotFound else Inr m)"

text \<open>
  Modelled from the spec: \<open>Put(key, metadata)\<close> of the metadata index, not among the
  sources. It is an upsert, and fails with IOError on disk failure (\<open>disk_fails\<close>).
\<close>

definition Index_Put ::
  "bool \<Rightarrow> (string \<rightharpoonup> BlobMetadata) \<Rightarrow> string \<Rightarrow> BlobMetadata \<Rightarrow>
     error + (string \<rightharpoonup> BlobMetadata)" where
  "Index_Put disk_fails idx k m = (if disk_fails then Inl IOError else Inr (idx(k \<mapsto> m)))"

text \<open>
  Modelled from the spec: \<open>Delete(key)\<close> of the metadata index, not among the sources.
  It sets \<open>deletedAt\<close> (soft) or removes the record (hard), per configuration.
\<close>

definition Index_Delete ::
  "bool \<Rightarrow> nat \<Rightarrow> (string \<rightharpoonup> BlobMetadata) \<Rightarrow> string \<Rightarrow> (string \<rightharpoonup> BlobMetadata)" where
  "Index_Delete soft now idx k =
     (if soft
      then (case idx k of None \<Rightarrow> idx | Some m \<Rightarrow> idx(k \<mapsto> m\<lparr>deletedAt := Some now\<rparr>))
      else idx(k := None))"

subsection \<open>Ingestion\<close>

record put_request =
  p_key :: string
  p_body :: "byte list"
  p_contentType :: string
  p_ifMatch :: "string option"
  p_now :: nat

text \<open>The four steps of the durability protocol.\<close>

datatype step = StreamToTemp | Persist | MoveIntoPlace | CommitMetadata

text \<open>
  What goes wrong around one upload: the step at which the disk fails, if any, and the
  number of bytes after which the client disconnects, if it does.
\<close>

record faults =
  io_error_at :: "step option"
  disconnect_at :: "nat option"

text \<open>
  Modelled from the spec: the MIME allow-list of the ingestion pipeline, not among the
  sources. The declared content type is matched by prefix.
\<close>

definition mime_allowed :: "string list \<Rightarrow> string \<Rightarrow> bool" where
  "mime_allowed allow ct = list_ex (HasPrefix ct) allow"

text \<open>
  Modelled from the spec: the \<open>If-Match\<close> check of the ingestion pipeline, not among
  the sources. The header, when sent, is compared with the current ETag of the key.
\<close>

definition if_match_ok :: "bool \<Rightarrow> (string \<rightharpoonup> BlobMetadata) \<Rightarrow> put_request \<Rightarrow> bool" where
  "if_match_ok soft idx rq =
     (case p_ifMatch rq of
        None \<Rightarrow> True
      | Some e \<Rightarrow> (case Index_Get soft idx (p_key rq) of
                     Inl _ \<Rightarrow> False
                   | Inr m \<Rightarrow> etag m = e))"

text \<open>
  Modelled from the spec: streaming the body of an upload, not among the sources. The body
  is written byte by byte; the upload is aborted as soon as the byte ceiling is exceeded,
  or when the client disconnects with bytes still to come. A clean end of the body within
  the limit returns the bytes written.
\<close>

fun stream :: "nat \<Rightarrow> nat option \<Rightarrow> byte list \<Rightarrow> byte list \<Rightarrow> error + byte list" where
  "stream limit disc written [] = Inr written"
| "stream limit disc written (b # rest) =
     (if disc = Some (length written) then Inl Cancelled
      else if limit < Suc (length written) then Inl PayloadTooLarge
      else stream limit disc (written @ [b]) rest)"

definition discard :: "store \<Rightarrow> store" where
  "discard st = st\<lparr>temp := None\<rparr>"

text \<open>
  Modelled from the spec: the metadata committed for an upload, not among the sources:
  checksum, size, content type, timestamps and a cleared \<open>deletedAt\<close>. The checksum and
  the ETag (deterministic from checksum and \<open>modifiedAt\<close>) are the parameters \<open>cks\<close>
  and \<open>etg\<close>.
\<close>

definition new_metadata ::
  "(byte list \<Rightarrow> string) \<Rightarrow> (string \<Rightarrow> nat \<Rightarrow> string) \<Rightarrow>
     (string \<rightharpoonup> BlobMetadata) \<Rightarrow> put_request \<Rightarrow> byte list \<Rightarrow> BlobMetadata" where
  "new_metadata cks etg idx rq bytes =
     \<lparr> md_key = p_key rq,
       contentType = p_contentType rq,
       sizeBytes = length bytes,
       checksum = cks bytes,
       createdAt = (case idx (p_key rq) of None \<Rightarrow> p_now rq | Some old \<Rightarrow> createdAt old),
       modifiedAt = p_now rq,
       deletedAt = None,
       etag = etg (cks bytes) (p_now rq) \<rparr>"

text \<open>
  Modelled from the spec: \<open>PUT /blob/{key}\<close>, the ingestion pipeline of package
  \<open>internal/app/keyval\<close>, not among the sources. \<open>If-Match\<close> is honoured before any
  byte is written and the content type is checked against the allow-list; then
  (1) the body is streamed to a temporary file, (2) the temporary file is persisted,
  (3) it is moved into place at the content path of the key, and (4) only then the
  metadata is committed. A failure at any step discards the temporary file and performs
  no metadata mutation, and the partial write is rolled back: the index and the content
  files are those from before the upload.
\<close>

definition Put ::
  "(byte list \<Rightarrow> string) \<Rightarrow> (string \<Rightarrow> nat \<Rightarrow> string) \<Rightarrow> keyval_Config \<Rightarrow>
     faults \<Rightarrow> store \<Rightarrow> put_request \<Rightarrow> (error + BlobMetadata) \<times> store" where
  "Put cks etg kc f st rq =
     (if \<not> if_match_ok (SoftDelete kc) (index st) rq then (Inl PreconditionFailed, discard st)
      else if \<not> mime_allowed (AllowedMimeTypes kc) (p_contentType rq)
        then (Inl UnsupportedMediaType, discard st)
      else if io_error_at f = Some StreamToTemp then (Inl IOError, discard st)
      else
        (case stream (MaxSize kc) (disconnect_at f) [] (p_body rq) of
           Inl e \<Rightarrow> (Inl e, discard st)
         | Inr bytes \<Rightarrow>
             (let st1 = st\<lparr>temp := Some bytes\<rparr> in
              if io_error_at f = Some Persist then (Inl IOError, discard st1)
              else if io_error_at f = Some MoveIntoPlace then (Inl IOError, discard st1)
              else
                (let st3 = st1\<lparr>content := (content st1)(p_key rq \<mapsto> bytes), temp := None\<rparr>;
                     md = new_metadata cks etg (index st) rq bytes
                 in case Index_Put (io_error_at f = Some CommitMetadata) (index st3)
                           (p_key rq) md of
                      Inl e \<Rightarrow> (Inl e, discard st)
                    | Inr idx \<Rightarrow> (Inr md, st3\<lparr>index := idx\<rparr>)))))"

subsection \<open>Deletion\<close>

text \<open>
  Modelled from the spec: \<open>DELETE /blob/{key}\<close>, the retrieval pipeline of package
  \<open>internal/app/keyval\<close>, not among the sources. Soft-delete sets \<open>deletedAt\<close> and
  retains the bytes, and hard-delete removes both content and metadata. The spec names no
  failure of DELETE and has a repeated DELETE return the same outcome, so the answer does
  not depend on whether the key is live, tombstoned or absent.
\<close>

definition Delete ::
  "keyval_Config \<Rightarrow> nat \<Rightarrow> store \<Rightarrow> string \<Rightarrow> (error + unit) \<times> store" where
  "Delete kc now st k =
     (Inr (),
      st\<lparr> index := Index_Delete (SoftDelete kc) now (index st) k,
          content := (if SoftDelete kc then content st else (content st)(k := None)) \<rparr>)"

section \<open>Constant-time comparison decides equality\<close>

lemma unat_of_char_byte: "unat (of_char c :: byte) = of_char c"
proof -
  have "(of_char c :: byte) = of_nat (of_char c)" by (simp only: of_nat_of_char)
  then have "unat (of_char c :: byte) = (of_char c :: nat) mod 256"
    by (simp only: unat_of_nat) simp
  moreover have "(of_char c :: nat) < 256" by simp
  ultimately show ?thesis by simp
qed

lemma of_char_byte_eq_iff: "(of_char c :: byte) = of_char d \<longleftrightarrow> c = d"
proof
  assume "(of_char c :: byte) = of_char d"
  then have "unat (of_char c :: byte) = unat (of_char d :: byte)" by simp
  then have "(of_char c :: nat) = of_char d" by (simp only: unat_of_char_byte)
  then show "c = d" by simp
qed simp

lemma bytes_of_eq_iff: "bytes_of s = bytes_of t \<longleftrightarrow> s = t"
proof (induction s arbitrary: t)
  case Nil
  then show ?case by (auto simp: bytes_of_def)
next
  case (Cons c s)
  then show ?case by (cases t) (auto simp: bytes_of_def of_char_byte_eq_iff)
qed

lemma unat_ucast_byte: "unat (ucast (z::byte) :: 32 word) = unat z"
proof -
  have "unat z < 2 ^ 8" using unsigned_less[of z, where ?'a=nat] by simp
  then have "unat z < 2 ^ 32" by simp
  then show ?thesis by (simp add: unsigned_ucast_eq take_bit_nat_eq_self)
qed

lemma drop_bit_31_small: 
  assumes "unat (w :: 32 word) < 2 ^ 31" 
  shows "drop_bit 31 w = 0"
proof -
  have "unat (drop_bit 31 w) = drop_bit 31 (unat w)" by (rule unat_drop_bit_eq)
  also have "\<dots> = unat w div 2 ^ 31" by (rule drop_bit_eq_div)
  also have "\<dots> = 0" using assms by simp
  finally show ?thesis by (simp only: unat_eq_0)
qed

lemma ConstantTimeByteEq_zero: "ConstantTimeByteEq z 0 = (if z = 0 then 1 else 0)"
proof (cases "z = 0")
  case True
  then show ?thesis by (simp add: ConstantTimeByteEq_def)
next
  case False
  let ?w = "(ucast z :: 32 word)"
  have u: "unat ?w = unat z" by (rule unat_ucast_byte)
  have nz: "unat z \<noteq> 0" using False by (simp only: unat_eq_0 not_False_eq_True)
  have pos: "?w \<noteq> 0"
  proof
    assume "?w = 0"
    then have "unat ?w = 0" by (simp only: unat_eq_0)
    with u nz show False by simp
  qed
  have "unat z < 2 ^ 8" using unsigned_less[of z, where ?'a=nat] by simp
  then have lt: "unat ?w < 256" using u by simp
  have "unat (?w - 1) = unat ?w - 1" using pos by (rule unat_minus_one)
  then have "unat (?w - 1) < 2 ^ 31" using lt by simp
  then have "drop_bit 31 (?w - 1) = 0" by (rule drop_bit_31_small)
  then show ?thesis using False by (simp add: ConstantTimeByteEq_def)
qed

lemma byte_xor_eq_0: "(a XOR b = (0::byte)) \<longleftrightarrow> a = b"
  by (metis bit.xor_left_self xor.right_neutral)

lemma xor_acc_eq_0:
  "length x = length y \<Longrightarrow> xor_acc v x y = 0 \<longleftrightarrow> v = 0 \<and> x = y"
proof (induction x y arbitrary: v rule: list_induct2)
  case Nil
  then show ?case by simp
next
  case (Cons a x b y)
  then show ?case by (auto simp: or_eq_0_iff byte_xor_eq_0)
qed

lemma ConstantTimeCompare_eq: "ConstantTimeCompare x y = (if x = y then 1 else 0)"
proof (cases "length x = length y")
  case True
  then show ?thesis
    by (simp add: ConstantTimeCompare_def ConstantTimeByteEq_zero xor_acc_eq_0)
next
  case False
  then show ?thesis by (auto simp: ConstantTimeCompare_def)
qed

lemma compare_bytes_of: "ConstantTimeCompare (bytes_of a) (bytes_of b) \<noteq> 1 \<longleftrightarrow> a \<noteq> b"
  by (simp add: ConstantTimeCompare_eq bytes_of_eq_iff)

section \<open>Routes\<close>

text \<open>
  C1. Whatever the configuration, and whatever the health-check path, exactly four routes
  lead to the blob store: the listing GET /blob, PUT /blob/* and DELETE /blob/* carry the
  access-verification middleware always, and the read route GET /blob/* carries it
  exactly when the public mode is not enabled.
\<close>

theorem store_routes_guarded:
  "store_routes (routes hc cfg) =
     [ (''GET'', ''/blob'', True),
       (''GET'', ''/blob/*'', Public cfg \<noteq> ''true''),
       (''PUT'', ''/blob/*'', True),
       (''DELETE'', ''/blob/*'', True) ]"
  by (simp add: store_routes_def routes_def guarded_def)

theorem store_routes_guarded_witness:
  "store_routes (routes ''/health''
      \<lparr> Environment = ''production'', UploadPath = ''/data/uploads'',
        LevelDBPath = ''/data/db'', SecretKey = ''k'', SignatureSecretKey = ''s'',
        MaxUploadSize = 1024, Public = ''true'' \<rparr>) =
     [ (''GET'', ''/blob'', True), (''GET'', ''/blob/*'', False),
       (''PUT'', ''/blob/*'', True), (''DELETE'', ''/blob/*'', True) ]"
  using store_routes_guarded [of "''/health''"
      "\<lparr> Environment = ''production'', UploadPath = ''/data/uploads'',
        LevelDBPath = ''/data/db'', SecretKey = ''k'', SignatureSecretKey = ''s'',
        MaxUploadSize = 1024, Public = ''true'' \<rparr>"]
  by simp

section \<open>The /serve handler\<close>

lemma serve_token_cases:
  "serve_token sign cfg r =
     (if request_sig r \<noteq> '''' then Inr (request_sig r)
      else if Values_Get (Header r) ''x-api-key'' = '''' then Inr ''unsafe''
      else if Values_Get (Header r) ''x-api-key'' = SecretKey cfg
        then Inr (sign (URL_Path r) (SignatureSecretKey cfg))
      else Inl (401, ''unauthorized''))"
  by (simp add: serve_token_def Let_def compare_bytes_of)

text \<open>
  C3. The credentials of a GET /serve request are evaluated in order. (1) A signature
  token, read from the query parameter x-signature or else from the header of that name,
  is the token the request is passed on under when it is present, whatever the API key.
  (2) Otherwise an API key, when present in the header x-api-key, is compared with the
  configured secret: a mismatch is answered 401 "unauthorized", and a match is served
  under a signature minted for the request path with the signing secret. (3) Only a
  request with neither is served under the reserved token. The request passed on has the
  token as its first path segment, in place of the prefix /serve, and no x-signature left
  in its query.
\<close>

theorem serve_credentials_order:
  "serve_handler sign cfg r =
     (if Values_Get (URL_Query r) ''x-signature'' \<noteq> ''''
        then ServeHTTP (rewrite (Values_Get (URL_Query r) ''x-signature'') r)
      else if Values_Get (Header r) ''x-signature'' \<noteq> ''''
        then ServeHTTP (rewrite (Values_Get (Header r) ''x-signature'') r)
      else if Values_Get (Header r) ''x-api-key'' \<noteq> '''' then
        (if Values_Get (Header r) ''x-api-key'' = SecretKey cfg
         then ServeHTTP (rewrite (sign (URL_Path r) (SignatureSecretKey cfg)) r)
         else Responded 401 ''unauthorized'')
      else ServeHTTP (rewrite ''unsafe'' r)) \<and>
   rewrite sig r =
     \<lparr> URL_Path = ''/'' @ sig @ TrimPrefix (URL_Path r) ''/serve'',
       URL_Query = (URL_Query r)(''x-signature'' := None),
       Header = Header r \<rparr>"
  by (simp add: serve_handler_def serve_token_cases request_sig_def rewrite_def
        Values_Del_def)

theorem serve_credentials_order_witness:
  "serve_handler append
     \<lparr> Environment = ''production'', UploadPath = ''/data/uploads'',
       LevelDBPath = ''/data/db'', SecretKey = ''k'', SignatureSecretKey = ''s'',
       MaxUploadSize = 1024, Public = ''false'' \<rparr>
     \<lparr> URL_Path = ''/serve/a.png'', URL_Query = map_of [(''x-signature'', [''q1''])],
       Header = map_of [(''x-signature'', [''h1'']), (''x-api-key'', [''wrong''])] \<rparr> =
   ServeHTTP
     \<lparr> URL_Path = ''/q1/a.png'',
       URL_Query = (map_of [(''x-signature'', [''q1''])])(''x-signature'' := None),
       Header = map_of [(''x-signature'', [''h1'']), (''x-api-key'', [''wrong''])] \<rparr> \<and>
   serve_handler append
     \<lparr> Environment = ''production'', UploadPath = ''/data/uploads'',
       LevelDBPath = ''/data/db'', SecretKey = ''k'', SignatureSecretKey = ''s'',
       MaxUploadSize = 1024, Public = ''false'' \<rparr>
     \<lparr> URL_Path = ''/serve/a.png'', URL_Query = map_of [(''w'', [''200''])],
       Header = map_of [(''x-signature'', [''h1'']), (''x-api-key'', [''wrong''])] \<rparr> =
   ServeHTTP
     \<lparr> URL_Path = ''/h1/a.png'',
       URL_Query = (map_of [(''w'', [''200''])])(''x-signature'' := None),
       Header = map_of [(''x-signature'', [''h1'']), (''x-api-key'', [''wrong''])] \<rparr> \<and>
   serve_handler append
     \<lparr> Environment = ''production'', UploadPath = ''/data/uploads'',
       LevelDBPath = ''/data/db'', SecretKey = ''k'', SignatureSecretKey = ''s'',
       MaxUploadSize = 1024, Public = ''false'' \<rparr>
     \<lparr> URL_Path = ''/serve/a.png'', URL_Query = map_of [],
       Header = map_of [(''x-api-key'', [''k''])] \<rparr> =
   ServeHTTP
     \<lparr> URL_Path = ''//serve/a.pngs/a.png'',
       URL_Query = (map_of [])(''x-signature'' := None),
       Header = map_of [(''x-api-key'', [''k''])] \<rparr> \<and>
   serve_handler append
     \<lparr> Environment = ''production'', UploadPath = ''/data/uploads'',
       LevelDBPath = ''/data/db'', SecretKey = ''k'', SignatureSecretKey = ''s'',
       MaxUploadSize = 1024, Public = ''false'' \<rparr>
     \<lparr> URL_Path = ''/serve/a.png'', URL_Query = map_of [],
       Header = map_of [(''x-api-key'', [''wrong''])] \<rparr> =
   Responded 401 ''unauthorized'' \<and>
   serve_handler append
     \<lparr> Environment = ''production'', UploadPath = ''/data/uploads'',
       LevelDBPath = ''/data/db'', SecretKey = ''k'', SignatureSecretKey = ''s'',
       MaxUploadSize = 1024, Public = ''false'' \<rparr>
     \<lparr> URL_Path = ''/serve/a.png'', URL_Query = map_of [], Header = map_of [] \<rparr> =
   ServeHTTP
     \<lparr> URL_Path = ''/unsafe/a.png'', URL_Query = (map_of [])(''x-signature'' := None),
       Header = map_of [] \<rparr>"
proof -
  let ?cfg = "\<lparr> Environment = ''production'', UploadPath = ''/data/uploads'',
       LevelDBPath = ''/data/db'', SecretKey = ''k'', SignatureSecretKey = ''s'',
       MaxUploadSize = 1024, Public = ''false'' \<rparr>"
  let ?hs = "map_of [(''x-signature'', [''h1'']), (''x-api-key'', [''wrong''])]"
  let ?r1 = "\<lparr> URL_Path = ''/serve/a.png'',
       URL_Query = map_of [(''x-signature'', [''q1''])], Header = ?hs \<rparr>"
  let ?r2 = "\<lparr> URL_Path = ''/serve/a.png'', URL_Query = map_of [(''w'', [''200''])],
       Header = ?hs \<rparr>"
  let ?r3 = "\<lparr> URL_Path = ''/serve/a.png'', URL_Query = map_of [],
       Header = map_of [(''x-api-key'', [''k''])] \<rparr>"
  let ?r4 = "\<lparr> URL_Path = ''/serve/a.png'', URL_Query = map_of [],
       Header = map_of [(''x-api-key'', [''wrong''])] \<rparr>"
  let ?r5 = "\<lparr> URL_Path = ''/serve/a.png'', URL_Query = map_of [], Header = map_of [] \<rparr>"
  note t = serve_credentials_order [where sign = append and cfg = ?cfg]
  have "serve_handler append ?cfg ?r1 =
      ServeHTTP \<lparr> URL_Path = ''/q1/a.png'',
        URL_Query = (map_of [(''x-signature'', [''q1''])])(''x-signature'' := None),
        Header = ?hs \<rparr>"
    using t [where r = ?r1 and sig = "''q1''"]
    by (simp add: Values_Get_def TrimPrefix_def HasPrefix_def)
  moreover have "serve_handler append ?cfg ?r2 =
      ServeHTTP \<lparr> URL_Path = ''/h1/a.png'',
        URL_Query = (map_of [(''w'', [''200''])])(''x-signature'' := None),
        Header = ?hs \<rparr>"
    using t [where r = ?r2 and sig = "''h1''"]
    by (simp add: Values_Get_def TrimPrefix_def HasPrefix_def)
  moreover have "serve_handler append ?cfg ?r3 =
      ServeHTTP \<lparr> URL_Path = ''//serve/a.pngs/a.png'',
        URL_Query = (map_of [])(''x-signature'' := None),
        Header = map_of [(''x-api-key'', [''k''])] \<rparr>"
    using t [where r = ?r3 and sig = "''/serve/a.pngs''"]
    by (simp add: Values_Get_def TrimPrefix_def HasPrefix_def)
  moreover have "serve_handler append ?cfg ?r4 = Responded 401 ''unauthorized''"
    using t [where r = ?r4 and sig = "''''"]
    by (simp add: Values_Get_def)
  moreover have "serve_handler append ?cfg ?r5 =
      ServeHTTP \<lparr> URL_Path = ''/unsafe/a.png'',
        URL_Query = (map_of [])(''x-signature'' := None), Header = map_of [] \<rparr>"
    using t [where r = ?r5 and sig = "''unsafe''"]
    by (simp add: Values_Get_def TrimPrefix_def HasPrefix_def)
  ultimately show ?thesis by blast
qed

text \<open>
  C2, as the claim states it, fails: in a deployment that is neither in development nor
  public, a request with neither a signature token nor an API key is not denied by the
  handler; it is passed on to the image service under the reserved token.
\<close>

theorem reserved_token_forwarded_counterexample:
  "debug ''development''
     \<lparr> Environment = ''production'', UploadPath = ''/data/uploads'',
       LevelDBPath = ''/data/db'', SecretKey = ''k'', SignatureSecretKey = ''s'',
       MaxUploadSize = 1024, Public = ''false'' \<rparr> = False \<and>
   request_sig
     \<lparr> URL_Path = ''/serve/300x200/cat.png'', URL_Query = map_of [], Header = map_of [] \<rparr>
     = '''' \<and>
   Values_Get (Header
     \<lparr> URL_Path = ''/serve/300x200/cat.png'', URL_Query = map_of [], Header = map_of [] \<rparr>)
     ''x-api-key'' = '''' \<and>
   serve_handler append
     \<lparr> Environment = ''production'', UploadPath = ''/data/uploads'',
       LevelDBPath = ''/data/db'', SecretKey = ''k'', SignatureSecretKey = ''s'',
       MaxUploadSize = 1024, Public = ''false'' \<rparr>
     \<lparr> URL_Path = ''/serve/300x200/cat.png'', URL_Query = map_of [], Header = map_of [] \<rparr> =
   ServeHTTP
     \<lparr> URL_Path = ''/unsafe/300x200/cat.png'',
       URL_Query = Values_Del (map_of []) ''x-signature'', Header = map_of [] \<rparr>"
  by (simp add: debug_def serve_handler_def serve_token_def request_sig_def Values_Get_def
        rewrite_def TrimPrefix_def HasPrefix_def)

text \<open>
  C2, amended. For every GET /serve request that presents neither a signature token nor an
  API key, and whatever the configuration of the deployment, the handler does not deny the
  request itself: it passes it on to the image service with the reserved token "unsafe" as
  the first path segment. Whether the reserved token is honoured is left to the image
  service, which main configures with the debug flag set exactly in development.
\<close>

theorem reserved_token_forwarded:
  assumes "request_sig r = ''''" and "Values_Get (Header r) ''x-api-key'' = ''''"
  shows "serve_handler sign cfg r = ServeHTTP (rewrite ''unsafe'' r) \<and>
         URL_Path (rewrite ''unsafe'' r) = ''/unsafe'' @ TrimPrefix (URL_Path r) ''/serve'' \<and>
         im_Debug (imagor_config dev cfg) = (Environment cfg = dev)"
  using assms
  by (simp add: serve_handler_def serve_token_def rewrite_def imagor_config_def debug_def)

theorem reserved_token_forwarded_witness:
  "serve_handler append
     \<lparr> Environment = ''production'', UploadPath = ''/data/uploads'',
       LevelDBPath = ''/data/db'', SecretKey = ''k'', SignatureSecretKey = ''s'',
       MaxUploadSize = 1024, Public = ''false'' \<rparr>
     \<lparr> URL_Path = ''/serve/fit-in/cat.png'', URL_Query = map_of [(''w'', [''200''])],
       Header = map_of [(''accept'', [''image/webp''])] \<rparr> =
   ServeHTTP (rewrite ''unsafe''
     \<lparr> URL_Path = ''/serve/fit-in/cat.png'', URL_Query = map_of [(''w'', [''200''])],
       Header = map_of [(''accept'', [''image/webp''])] \<rparr>) \<and>
   URL_Path (rewrite ''unsafe''
     \<lparr> URL_Path = ''/serve/fit-in/cat.png'', URL_Query = map_of [(''w'', [''200''])],
       Header = map_of [(''accept'', [''image/webp''])] \<rparr>) = ''/unsafe/fit-in/cat.png'' \<and>
   im_Debug (imagor_config ''development''
     \<lparr> Environment = ''production'', UploadPath = ''/data/uploads'',
       LevelDBPath = ''/data/db'', SecretKey = ''k'', SignatureSecretKey = ''s'',
       MaxUploadSize = 1024, Public = ''false'' \<rparr>) = False"
proof -
  let ?r = "\<lparr> URL_Path = ''/serve/fit-in/cat.png'', URL_Query = map_of [(''w'', [''200''])],
       Header = map_of [(''accept'', [''image/webp''])] \<rparr>"
  have h1: "request_sig ?r = ''''" by (simp add: request_sig_def Values_Get_def)
  have h2: "Values_Get (Header ?r) ''x-api-key'' = ''''" by (simp add: Values_Get_def)
  show ?thesis
    using reserved_token_forwarded [OF h1 h2, of append
      "\<lparr> Environment = ''production'', UploadPath = ''/data/uploads'',
       LevelDBPath = ''/data/db'', SecretKey = ''k'', SignatureSecretKey = ''s'',
       MaxUploadSize = 1024, Public = ''false'' \<rparr>" "''development''"]
    by (simp add: TrimPrefix_def HasPrefix_def)
qed

text \<open>
  C9. When the query string of a GET /serve request carries a non-empty x-signature, that
  value is the token the request is served under, whatever the headers hold; the
  x-signature header is the token only when the query parameter is empty.
\<close>

theorem query_signature_first:
  "(Values_Get (URL_Query r) ''x-signature'' \<noteq> '''' \<longrightarrow>
      serve_handler sign cfg (r\<lparr>Header := h\<rparr>) =
        ServeHTTP (rewrite (Values_Get (URL_Query r) ''x-signature'') (r\<lparr>Header := h\<rparr>))) \<and>
   (Values_Get (URL_Query r') ''x-signature'' = '''' \<and>
    Values_Get (Header r') ''x-signature'' \<noteq> '''' \<longrightarrow>
      serve_handler sign cfg r' =
        ServeHTTP (rewrite (Values_Get (Header r') ''x-signature'') r'))"
  by (simp add: serve_handler_def serve_token_def request_sig_def)

theorem query_signature_first_witness:
  "serve_handler append
     \<lparr> Environment = ''production'', UploadPath = ''/data/uploads'',
       LevelDBPath = ''/data/db'', SecretKey = ''k'', SignatureSecretKey = ''s'',
       MaxUploadSize = 1024, Public = ''false'' \<rparr>
     \<lparr> URL_Path = ''/serve/a.png'', URL_Query = map_of [(''x-signature'', [''fromquery''])],
       Header = map_of [(''x-signature'', [''fromheader'']), (''x-api-key'', [''wrong''])] \<rparr> =
   ServeHTTP
     \<lparr> URL_Path = ''/fromquery/a.png'',
       URL_Query = Values_Del (map_of [(''x-signature'', [''fromquery''])]) ''x-signature'',
       Header = map_of [(''x-signature'', [''fromheader'']), (''x-api-key'', [''wrong''])] \<rparr> \<and>
   serve_handler append
     \<lparr> Environment = ''production'', UploadPath = ''/data/uploads'',
       LevelDBPath = ''/data/db'', SecretKey = ''k'', SignatureSecretKey = ''s'',
       MaxUploadSize = 1024, Public = ''false'' \<rparr>
     \<lparr> URL_Path = ''/serve/a.png'', URL_Query = map_of [(''x-signature'', [''''])],
       Header = map_of [(''x-signature'', [''fromheader''])] \<rparr> =
   ServeHTTP
     \<lparr> URL_Path = ''/fromheader/a.png'',
       URL_Query = Values_Del (map_of [(''x-signature'', [''''])]) ''x-signature'',
       Header = map_of [(''x-signature'', [''fromheader''])] \<rparr>"
  using query_signature_first [of
     "\<lparr> URL_Path = ''/serve/a.png'', URL_Query = map_of [(''x-signature'', [''fromquery''])],
       Header = map_of [] \<rparr>"
     append
     "\<lparr> Environment = ''production'', UploadPath = ''/data/uploads'',
       LevelDBPath = ''/data/db'', SecretKey = ''k'', SignatureSecretKey = ''s'',
       MaxUploadSize = 1024, Public = ''false'' \<rparr>"
     "map_of [(''x-signature'', [''fromheader'']), (''x-api-key'', [''wrong''])]"
     "\<lparr> URL_Path = ''/serve/a.png'', URL_Query = map_of [(''x-signature'', [''''])],
       Header = map_of [(''x-signature'', [''fromheader''])] \<rparr>"]
  by (simp add: Values_Get_def rewrite_def TrimPrefix_def HasPrefix_def)

text \<open>
  C10. With an empty configured secret, startup logs that API key verification is
  disabled, yet every GET /serve request without a signature and with a non-empty
  x-api-key header is answered 401 "unauthorized"; the same kind of request without the
  header is served under the reserved token.
\<close>

theorem empty_secret_rejects_api_keys:
  "(SecretKey cfg = '''' \<and> request_sig r = '''' \<and> Values_Get (Header r) ''x-api-key'' \<noteq> '''' \<longrightarrow>
      serve_handler sign cfg r = Responded 401 ''unauthorized'' \<and>
      ''no secret key provided, API key verification is disabled''
        \<in> set (startup_warnings dev cfg)) \<and>
   (SecretKey cfg = '''' \<and> request_sig r' = '''' \<and> Values_Get (Header r') ''x-api-key'' = '''' \<longrightarrow>
      serve_handler sign cfg r' = ServeHTTP (rewrite ''unsafe'' r'))"
  by (simp add: serve_handler_def serve_token_cases startup_warnings_def)

theorem empty_secret_rejects_api_keys_witness:
  "serve_handler append
     \<lparr> Environment = ''production'', UploadPath = ''/data/uploads'',
       LevelDBPath = ''/data/db'', SecretKey = '''', SignatureSecretKey = ''s'',
       MaxUploadSize = 1024, Public = ''false'' \<rparr>
     \<lparr> URL_Path = ''/serve/a.png'', URL_Query = map_of [],
       Header = map_of [(''x-api-key'', [''anything''])] \<rparr> = Responded 401 ''unauthorized'' \<and>
   startup_warnings ''development''
     \<lparr> Environment = ''production'', UploadPath = ''/data/uploads'',
       LevelDBPath = ''/data/db'', SecretKey = '''', SignatureSecretKey = ''s'',
       MaxUploadSize = 1024, Public = ''false'' \<rparr> =
     [''no secret key provided, API key verification is disabled''] \<and>
   serve_handler append
     \<lparr> Environment = ''production'', UploadPath = ''/data/uploads'',
       LevelDBPath = ''/data/db'', SecretKey = '''', SignatureSecretKey = ''s'',
       MaxUploadSize = 1024, Public = ''false'' \<rparr>
     \<lparr> URL_Path = ''/serve/a.png'', URL_Query = map_of [], Header = map_of [] \<rparr> =
   ServeHTTP
     \<lparr> URL_Path = ''/unsafe/a.png'', URL_Query = Values_Del (map_of []) ''x-signature'',
       Header = map_of [] \<rparr>"
  using empty_secret_rejects_api_keys [of
     "\<lparr> Environment = ''production'', UploadPath = ''/data/uploads'',
       LevelDBPath = ''/data/db'', SecretKey = '''', SignatureSecretKey = ''s'',
       MaxUploadSize = 1024, Public = ''false'' \<rparr>"
     "\<lparr> URL_Path = ''/serve/a.png'', URL_Query = map_of [],
       Header = map_of [(''x-api-key'', [''anything''])] \<rparr>"
     append "''development''"
     "\<lparr> URL_Path = ''/serve/a.png'', URL_Query = map_of [], Header = map_of [] \<rparr>"]
  by (simp add: request_sig_def Values_Get_def rewrite_def TrimPrefix_def HasPrefix_def
        startup_warnings_def)

section \<open>The signer\<close>

text \<open>
  C5. For all paths and secrets, and whatever the keyed hash, verifying the token made by
  signing a path with a secret, against the same path and secret, is valid.
\<close>

theorem verify_sign_valid:
  "Verify kh etext p (Sign kh etext p s None) s now = Valid"
  by (simp add: Verify_def Sign_def ConstantTimeCompare_eq)

theorem verify_sign_valid_witness:
  "Verify (\<lambda>secret text. bytes_of (secret @ text)) (\<lambda>e. replicate e CHR ''1'')
     ''/blob/a.png''
     (Sign (\<lambda>secret text. bytes_of (secret @ text)) (\<lambda>e. replicate e CHR ''1'')
        ''/blob/a.png'' ''s'' None)
     ''s'' 7 = Valid"
  using verify_sign_valid [of "\<lambda>secret text. bytes_of (secret @ text)"
      "\<lambda>e. replicate e CHR ''1''" "''/blob/a.png''" "''s''" 7]
  by simp

section \<open>Deletion\<close>

text \<open>
  C7. The soft-delete flag of the configuration selects the deletion mode: for a key with
  a record, deleting with the flag set retains the record with its \<open>deletedAt\<close> set,
  and deleting with the flag unset removes the record; records of other keys are left
  alone. The configuration that main builds sets the flag.
\<close>

theorem delete_mode_by_flag:
  "(idx k = Some m \<longrightarrow>
      Index_Delete True now idx k k = Some (m\<lparr>deletedAt := Some now\<rparr>) \<and>
      Index_Delete False now idx k k = None) \<and>
   (k' \<noteq> k \<longrightarrow> Index_Delete soft now idx k k' = idx k') \<and>
   (Index_Get (SoftDelete kc) (index st) k = Inr m \<longrightarrow>
      fst (Delete kc now st k) = Inr () \<and>
      index (snd (Delete kc now st k)) k =
        (if SoftDelete kc then Some (m\<lparr>deletedAt := Some now\<rparr>) else None) \<and>
      content (snd (Delete kc now st k)) k =
        (if SoftDelete kc then content st k else None)) \<and>
   SoftDelete (kv_config dev cfg) = True"
  by (auto simp: Index_Delete_def Index_Get_def Delete_def kv_config_def
      split: option.splits if_splits)

theorem delete_mode_by_flag_witness:
  "Index_Delete True 9
     (map_of [(''a.png'', \<lparr> md_key = ''a.png'', contentType = ''image/png'', sizeBytes = 2,
        checksum = ''c'', createdAt = 1, modifiedAt = 1, deletedAt = None, etag = ''e'' \<rparr>)])
     ''a.png'' ''a.png'' =
     Some \<lparr> md_key = ''a.png'', contentType = ''image/png'', sizeBytes = 2,
        checksum = ''c'', createdAt = 1, modifiedAt = 1, deletedAt = Some 9, etag = ''e'' \<rparr> \<and>
   Index_Delete False 9
     (map_of [(''a.png'', \<lparr> md_key = ''a.png'', contentType = ''image/png'', sizeBytes = 2,
        checksum = ''c'', createdAt = 1, modifiedAt = 1, deletedAt = None, etag = ''e'' \<rparr>)])
     ''a.png'' ''a.png'' = None \<and>
   Index_Delete False 9
     (map_of [(''a.png'', \<lparr> md_key = ''a.png'', contentType = ''image/png'', sizeBytes = 2,
        checksum = ''c'', createdAt = 1, modifiedAt = 1, deletedAt = None, etag = ''e'' \<rparr>)])
     ''a.png'' ''b.png'' = None \<and>
   fst (Delete
     \<lparr> BasePath = ''/blob'', kv_UploadPath = ''/data/uploads'', kv_LevelDBPath = ''/data/db'',
       SoftDelete = True, SignSecret = ''s'', MaxSize = 4, AllowedMimeTypes = [''image/''],
       Debug = False \<rparr> 9
     \<lparr> index = map_of [(''a.png'', \<lparr> md_key = ''a.png'', contentType = ''image/png'',
          sizeBytes = 2, checksum = ''c'', createdAt = 1, modifiedAt = 1, deletedAt = None,
          etag = ''e'' \<rparr>)],
       content = map_of [(''a.png'', [1, 2])], temp = None \<rparr> ''a.png'') = Inr () \<and>
   index (snd (Delete
     \<lparr> BasePath = ''/blob'', kv_UploadPath = ''/data/uploads'', kv_LevelDBPath = ''/data/db'',
       SoftDelete = True, SignSecret = ''s'', MaxSize = 4, AllowedMimeTypes = [''image/''],
       Debug = False \<rparr> 9
     \<lparr> index = map_of [(''a.png'', \<lparr> md_key = ''a.png'', contentType = ''image/png'',
          sizeBytes = 2, checksum = ''c'', createdAt = 1, modifiedAt = 1, deletedAt = None,
          etag = ''e'' \<rparr>)],
       content = map_of [(''a.png'', [1, 2])], temp = None \<rparr> ''a.png'')) ''a.png'' =
     Some \<lparr> md_key = ''a.png'', contentType = ''image/png'', sizeBytes = 2,
        checksum = ''c'', createdAt = 1, modifiedAt = 1, deletedAt = Some 9, etag = ''e'' \<rparr> \<and>
   content (snd (Delete
     \<lparr> BasePath = ''/blob'', kv_UploadPath = ''/data/uploads'', kv_LevelDBPath = ''/data/db'',
       SoftDelete = True, SignSecret = ''s'', MaxSize = 4, AllowedMimeTypes = [''image/''],
       Debug = False \<rparr> 9
     \<lparr> index = map_of [(''a.png'', \<lparr> md_key = ''a.png'', contentType = ''image/png'',
          sizeBytes = 2, checksum = ''c'', createdAt = 1, modifiedAt = 1, deletedAt = None,
          etag = ''e'' \<rparr>)],
       content = map_of [(''a.png'', [1, 2])], temp = None \<rparr> ''a.png'')) ''a.png'' =
     Some [1, 2]"
proof -
  let ?m = "\<lparr> md_key = ''a.png'', contentType = ''image/png'', sizeBytes = 2,
        checksum = ''c'', createdAt = 1, modifiedAt = 1, deletedAt = None, etag = ''e'' \<rparr>"
  let ?idx = "map_of [(''a.png'', ?m)]"
  let ?kc = "\<lparr> BasePath = ''/blob'', kv_UploadPath = ''/data/uploads'',
       kv_LevelDBPath = ''/data/db'', SoftDelete = True, SignSecret = ''s'', MaxSize = 4,
       AllowedMimeTypes = [''image/''], Debug = False \<rparr>"
  let ?st = "\<lparr> index = ?idx, content = map_of [(''a.png'', [1, 2 :: byte])], temp = None \<rparr>"
  have h1: "?idx ''a.png'' = Some ?m" by simp
  have h2: "''b.png'' \<noteq> ''a.png''" by simp
  have h3: "Index_Get (SoftDelete ?kc) (index ?st) ''a.png'' = Inr ?m"
    by (simp add: Index_Get_def)
  show ?thesis
    using h1 h2 h3
      delete_mode_by_flag [of ?idx "''a.png''" ?m 9 "''b.png''" False ?kc ?st]
    by simp
qed

lemma Index_Get_after_delete:
  "Index_Get soft (Index_Delete soft now idx k) k = Inl NotFound"
  by (simp add: Index_Get_def Index_Delete_def split: option.splits)

lemma Index_Get_delete_twice:
  "Index_Get soft (Index_Delete soft t2 (Index_Delete soft t1 idx k) k) k' =
     Index_Get soft (Index_Delete soft t1 idx k) k'"
  by (simp add: Index_Get_def Index_Delete_def split: option.splits)

lemma Index_Delete_twice:
  "\<not> soft \<or> t2 = t1 \<Longrightarrow>
     Index_Delete soft t2 (Index_Delete soft t1 idx k) k = Index_Delete soft t1 idx k"
  by (auto simp: Index_Delete_def split: option.splits)

lemma Index_Get_delete_hidden:
  "Index_Get soft idx k = Inl NotFound \<Longrightarrow>
     Index_Get soft (Index_Delete soft now idx k) k' = Index_Get soft idx k'"
  by (auto simp: Index_Get_def Index_Delete_def split: option.splits if_splits)

text \<open>
  C8. Deleting is idempotent. Whatever the state of a key before the first DELETE (live,
  tombstoned or absent), repeating the DELETE yields the same outcome as the first call:
  the same answer, and a store in which every key is found or not found as after the
  first call, with the same content files; after a hard delete, or at the same instant,
  the store is the very same. The key is not found after the first call. For a key that
  was already deleted or absent, the first call itself changes nothing that a lookup sees.
\<close>

theorem delete_idempotent:
  "fst (Delete kc t2 (snd (Delete kc t1 st k)) k) = fst (Delete kc t1 st k) \<and>
   Index_Get (SoftDelete kc) (index (snd (Delete kc t2 (snd (Delete kc t1 st k)) k))) k' =
     Index_Get (SoftDelete kc) (index (snd (Delete kc t1 st k))) k' \<and>
   content (snd (Delete kc t2 (snd (Delete kc t1 st k)) k)) =
     content (snd (Delete kc t1 st k)) \<and>
   temp (snd (Delete kc t2 (snd (Delete kc t1 st k)) k)) = temp (snd (Delete kc t1 st k)) \<and>
   (\<not> SoftDelete kc \<or> t2 = t1 \<longrightarrow>
      Delete kc t2 (snd (Delete kc t1 st k)) k = Delete kc t1 st k) \<and>
   Index_Get (SoftDelete kc) (index (snd (Delete kc t1 st k))) k = Inl NotFound \<and>
   (Index_Get (SoftDelete kc) (index st) k = Inl NotFound \<longrightarrow>
      Index_Get (SoftDelete kc) (index (snd (Delete kc t1 st k))) k' =
        Index_Get (SoftDelete kc) (index st) k')"
proof (intro conjI impI)
  show "fst (Delete kc t2 (snd (Delete kc t1 st k)) k) = fst (Delete kc t1 st k)"
    by (simp add: Delete_def)
  show "Index_Get (SoftDelete kc) (index (snd (Delete kc t2 (snd (Delete kc t1 st k)) k))) k' =
     Index_Get (SoftDelete kc) (index (snd (Delete kc t1 st k))) k'"
    by (simp add: Delete_def Index_Get_delete_twice)
  show "content (snd (Delete kc t2 (snd (Delete kc t1 st k)) k)) =
     content (snd (Delete kc t1 st k))"
    by (simp add: Delete_def)
  show "temp (snd (Delete kc t2 (snd (Delete kc t1 st k)) k)) = temp (snd (Delete kc t1 st k))"
    by (simp add: Delete_def)
  show "Index_Get (SoftDelete kc) (index (snd (Delete kc t1 st k))) k = Inl NotFound"
    by (simp add: Delete_def Index_Get_after_delete)
next
  assume "\<not> SoftDelete kc \<or> t2 = t1"
  then have "Index_Delete (SoftDelete kc) t2 (Index_Delete (SoftDelete kc) t1 (index st) k) k =
      Index_Delete (SoftDelete kc) t1 (index st) k"
    by (rule Index_Delete_twice)
  then show "Delete kc t2 (snd (Delete kc t1 st k)) k = Delete kc t1 st k"
    by (simp add: Delete_def)
next
  assume "Index_Get (SoftDelete kc) (index st) k = Inl NotFound"
  then show "Index_Get (SoftDelete kc) (index (snd (Delete kc t1 st k))) k' =
      Index_Get (SoftDelete kc) (index st) k'"
    by (simp add: Delete_def Index_Get_delete_hidden)
qed

theorem delete_idempotent_witness:
  "Delete
     \<lparr> BasePath = ''/blob'', kv_UploadPath = ''/data/uploads'', kv_LevelDBPath = ''/data/db'',
       SoftDelete = False, SignSecret = ''s'', MaxSize = 4, AllowedMimeTypes = [''image/''],
       Debug = False \<rparr> 10
     (snd (Delete
       \<lparr> BasePath = ''/blob'', kv_UploadPath = ''/data/uploads'', kv_LevelDBPath = ''/data/db'',
         SoftDelete = False, SignSecret = ''s'', MaxSize = 4, AllowedMimeTypes = [''image/''],
         Debug = False \<rparr> 9
       \<lparr> index = map_of [(''a.png'', \<lparr> md_key = ''a.png'', contentType = ''image/png'',
            sizeBytes = 2, checksum = ''c'', createdAt = 1, modifiedAt = 1, deletedAt = None,
            etag = ''e'' \<rparr>)],
         content = map_of [(''a.png'', [1, 2])], temp = None \<rparr> ''a.png'')) ''a.png'' =
   Delete
     \<lparr> BasePath = ''/blob'', kv_UploadPath = ''/data/uploads'', kv_LevelDBPath = ''/data/db'',
       SoftDelete = False, SignSecret = ''s'', MaxSize = 4, AllowedMimeTypes = [''image/''],
       Debug = False \<rparr> 9
     \<lparr> index = map_of [(''a.png'', \<lparr> md_key = ''a.png'', contentType = ''image/png'',
          sizeBytes = 2, checksum = ''c'', createdAt = 1, modifiedAt = 1, deletedAt = None,
          etag = ''e'' \<rparr>)],
       content = map_of [(''a.png'', [1, 2])], temp = None \<rparr> ''a.png'' \<and>
   Index_Get True (index (snd (Delete
     \<lparr> BasePath = ''/blob'', kv_UploadPath = ''/data/uploads'', kv_LevelDBPath = ''/data/db'',
       SoftDelete = True, SignSecret = ''s'', MaxSize = 4, AllowedMimeTypes = [''image/''],
       Debug = False \<rparr> 9
     \<lparr> index = map_of [(''a.png'', \<lparr> md_key = ''a.png'', contentType = ''image/png'',
          sizeBytes = 2, checksum = ''c'', createdAt = 1, modifiedAt = 1, deletedAt = Some 3,
          etag = ''e'' \<rparr>)],
       content = map_of [(''a.png'', [1, 2])], temp = None \<rparr> ''a.png''))) ''a.png'' =
     Inl NotFound"
proof -
  let ?hard = "\<lparr> BasePath = ''/blob'', kv_UploadPath = ''/data/uploads'',
       kv_LevelDBPath = ''/data/db'', SoftDelete = False, SignSecret = ''s'', MaxSize = 4,
       AllowedMimeTypes = [''image/''], Debug = False \<rparr>"
  let ?soft = "\<lparr> BasePath = ''/blob'', kv_UploadPath = ''/data/uploads'',
       kv_LevelDBPath = ''/data/db'', SoftDelete = True, SignSecret = ''s'', MaxSize = 4,
       AllowedMimeTypes = [''image/''], Debug = False \<rparr>"
  let ?live = "\<lparr> index = map_of [(''a.png'', \<lparr> md_key = ''a.png'',
          contentType = ''image/png'', sizeBytes = 2, checksum = ''c'', createdAt = 1,
          modifiedAt = 1, deletedAt = None, etag = ''e'' \<rparr>)],
       content = map_of [(''a.png'', [1, 2 :: byte])], temp = None \<rparr>"
  let ?gone = "\<lparr> index = map_of [(''a.png'', \<lparr> md_key = ''a.png'',
          contentType = ''image/png'', sizeBytes = 2, checksum = ''c'', createdAt = 1,
          modifiedAt = 1, deletedAt = Some 3, etag = ''e'' \<rparr>)],
       content = map_of [(''a.png'', [1, 2 :: byte])], temp = None \<rparr>"
  have h1: "\<not> SoftDelete ?hard \<or> (10::nat) = 9" by simp
  have h2: "Index_Get (SoftDelete ?soft) (index ?gone) ''a.png'' = Inl NotFound"
    by (simp add: Index_Get_def)
  from h1 delete_idempotent [where kc = ?hard and ?t1.0 = 9 and ?t2.0 = 10 and st = ?live
      and k = "''a.png''"]
  have a: "Delete ?hard 10 (snd (Delete ?hard 9 ?live ''a.png'')) ''a.png'' =
      Delete ?hard 9 ?live ''a.png''" by blast
  from h2 delete_idempotent [where kc = ?soft and ?t1.0 = 9 and st = ?gone
      and k = "''a.png''" and k' = "''a.png''"]
  have b: "Index_Get (SoftDelete ?soft) (index (snd (Delete ?soft 9 ?gone ''a.png''))) ''a.png'' =
      Inl NotFound" by simp
  from a b show ?thesis by simp
qed

section \<open>Ingestion\<close>

lemma stream_too_large:
  "length written \<le> limit \<Longrightarrow> limit < length (written @ body) \<Longrightarrow>
     stream limit None written body = Inl PayloadTooLarge"
proof (induction body arbitrary: written)
  case Nil
  then show ?case by simp
next
  case (Cons b body)
  show ?case
  proof (cases "limit < Suc (length written)")
    case True
    then show ?thesis by simp
  next
    case False
    then have "length (written @ [b]) \<le> limit" by simp
    moreover have "limit < length ((written @ [b]) @ body)" using Cons.prems by simp
    ultimately have "stream limit None (written @ [b]) body = Inl PayloadTooLarge"
      by (rule Cons.IH)
    with False show ?thesis by simp
  qed
qed

lemma stream_within_limit:
  "length (written @ body) \<le> limit \<Longrightarrow>
     stream limit None written body = Inr (written @ body)"
  by (induction body arbitrary: written) auto

lemma stream_fails:
  "(body \<noteq> [] \<and> limit < length (written @ body)) \<or>
   (\<exists>d. disc = Some d \<and> length written \<le> d \<and> d < length (written @ body)) \<Longrightarrow>
     isl (stream limit disc written body)"
proof (induction body arbitrary: written)
  case Nil
  then show ?case by auto
next
  case (Cons b body)
  show ?case
  proof (cases "disc = Some (length written) \<or> limit < Suc (length written)")
    case True
    then show ?thesis by auto
  next
    case False
    from Cons.prems False
    have "(body \<noteq> [] \<and> limit < length ((written @ [b]) @ body)) \<or>
        (\<exists>d. disc = Some d \<and> length (written @ [b]) \<le> d \<and>
           d < length ((written @ [b]) @ body))"
      by (cases body) auto
    then have "isl (stream limit disc (written @ [b]) body)" by (rule Cons.IH)
    with False show ?thesis by simp
  qed
qed

lemma stream_cancelled:
  "length written \<le> d \<Longrightarrow> d < length (written @ body) \<Longrightarrow> d \<le> limit \<Longrightarrow>
     stream limit (Some d) written body = Inl Cancelled"
proof (induction body arbitrary: written)
  case Nil
  then show ?case by simp
next
  case (Cons b body)
  show ?case
  proof (cases "d = length written")
    case True
    then show ?thesis by simp
  next
    case False
    with Cons.prems have "length (written @ [b]) \<le> d" by simp
    moreover have "d < length ((written @ [b]) @ body)" using Cons.prems by simp
    ultimately have "stream limit (Some d) (written @ [b]) body = Inl Cancelled"
      using Cons.prems(3) by (rule Cons.IH)
    with False Cons.prems show ?thesis by simp
  qed
qed

lemma Put_failure:
  assumes "fst (Put cks etg kc f st rq) = Inl e"
  shows "snd (Put cks etg kc f st rq) = st\<lparr>temp := None\<rparr>"
  using assms
  by (auto simp: Put_def discard_def Index_Put_def Let_def split: if_splits sum.splits)

lemma Put_fails:
  assumes "\<not> if_match_ok (SoftDelete kc) (index st) rq \<or>
      \<not> mime_allowed (AllowedMimeTypes kc) (p_contentType rq) \<or>
      MaxSize kc < length (p_body rq) \<or> io_error_at f \<noteq> None \<or>
      (disconnect_at f = Some d \<and> d < length (p_body rq))"
  shows "isl (fst (Put cks etg kc f st rq))"
proof (cases "stream (MaxSize kc) (disconnect_at f) [] (p_body rq)")
  case (Inl e)
  then show ?thesis by (simp add: Put_def)
next
  case (Inr bytes)
  have "\<not> (MaxSize kc < length (p_body rq) \<or>
      (disconnect_at f = Some d \<and> d < length (p_body rq)))"
  proof
    assume "MaxSize kc < length (p_body rq) \<or>
      (disconnect_at f = Some d \<and> d < length (p_body rq))"
    then have "(p_body rq \<noteq> [] \<and> MaxSize kc < length ([] @ p_body rq)) \<or>
        (\<exists>d. disconnect_at f = Some d \<and> length ([] :: byte list) \<le> d \<and>
           d < length ([] @ p_body rq))"
      by auto
    then have "isl (stream (MaxSize kc) (disconnect_at f) [] (p_body rq))"
      by (rule stream_fails)
    with Inr show False by simp
  qed
  with assms have c: "\<not> if_match_ok (SoftDelete kc) (index st) rq \<or>
      \<not> mime_allowed (AllowedMimeTypes kc) (p_contentType rq) \<or> io_error_at f \<noteq> None"
    by blast
  show ?thesis
  proof (cases "io_error_at f")
    case None
    with c show ?thesis by (auto simp: Put_def)
  next
    case (Some a)
    with Inr show ?thesis
      by (cases a) (simp_all add: Put_def Index_Put_def Let_def)
  qed
qed

text \<open>
  C4. Every PUT /blob/{key} that fails leaves the store as it was, with the temporary file
  discarded: no metadata mutation occurs and the prior metadata record and content of
  every key, or their absence, are unchanged. Each cause makes the upload fail: a failed
  precondition, a disallowed MIME type (UnsupportedMediaType), a body over the byte
  ceiling, an I/O error at any of the four steps (IOError), a client that disconnects
  before the end of the body (Cancelled). In particular a body of MaxSize+1 bytes fails
  with PayloadTooLarge and leaves the store as it was, while a body of exactly MaxSize
  bytes, of an allowed type and with no fault, succeeds: its metadata is committed and
  its bytes are the content of the key.
\<close>

theorem put_failure_leaves_store:
  "(fst (Put cks etg kc f st rq) = Inl e \<longrightarrow>
      snd (Put cks etg kc f st rq) = st\<lparr>temp := None\<rparr> \<and>
      temp (snd (Put cks etg kc f st rq)) = None \<and>
      index (snd (Put cks etg kc f st rq)) = index st \<and>
      content (snd (Put cks etg kc f st rq)) = content st) \<and>
   (\<not> if_match_ok (SoftDelete kc) (index st) rq \<or>
    \<not> mime_allowed (AllowedMimeTypes kc) (p_contentType rq) \<or>
    MaxSize kc < length (p_body rq) \<or> io_error_at f \<noteq> None \<or>
    (disconnect_at f = Some d \<and> d < length (p_body rq)) \<longrightarrow>
      isl (fst (Put cks etg kc f st rq))) \<and>
   (if_match_ok (SoftDelete kc) (index st) rq \<and>
    \<not> mime_allowed (AllowedMimeTypes kc) (p_contentType rq) \<longrightarrow>
      fst (Put cks etg kc f st rq) = Inl UnsupportedMediaType) \<and>
   (if_match_ok (SoftDelete kc) (index st) rq \<and>
    mime_allowed (AllowedMimeTypes kc) (p_contentType rq) \<and>
    io_error_at f = Some s \<and> disconnect_at f = None \<and>
    length (p_body rq) \<le> MaxSize kc \<longrightarrow>
      fst (Put cks etg kc f st rq) = Inl IOError) \<and>
   (if_match_ok (SoftDelete kc) (index st) rq \<and>
    mime_allowed (AllowedMimeTypes kc) (p_contentType rq) \<and>
    io_error_at f = None \<and> disconnect_at f = Some d \<and>
    d < length (p_body rq) \<and> d \<le> MaxSize kc \<longrightarrow>
      fst (Put cks etg kc f st rq) = Inl Cancelled) \<and>
   (if_match_ok (SoftDelete kc) (index st) rq \<and>
    mime_allowed (AllowedMimeTypes kc) (p_contentType rq) \<and>
    io_error_at f \<noteq> Some StreamToTemp \<and> disconnect_at f = None \<and>
    length (p_body rq) = MaxSize kc + 1 \<longrightarrow>
      Put cks etg kc f st rq = (Inl PayloadTooLarge, st\<lparr>temp := None\<rparr>)) \<and>
   (if_match_ok (SoftDelete kc) (index st) rq \<and>
    mime_allowed (AllowedMimeTypes kc) (p_contentType rq) \<and>
    io_error_at f = None \<and> disconnect_at f = None \<and>
    length (p_body rq) = MaxSize kc \<longrightarrow>
      fst (Put cks etg kc f st rq) = Inr (new_metadata cks etg (index st) rq (p_body rq)) \<and>
      index (snd (Put cks etg kc f st rq)) (p_key rq) =
        Some (new_metadata cks etg (index st) rq (p_body rq)) \<and>
      content (snd (Put cks etg kc f st rq)) (p_key rq) = Some (p_body rq) \<and>
      temp (snd (Put cks etg kc f st rq)) = None)"
proof (intro conjI impI)
  assume a: "fst (Put cks etg kc f st rq) = Inl e"
  then show r: "snd (Put cks etg kc f st rq) = st\<lparr>temp := None\<rparr>" by (rule Put_failure)
  from r show "temp (snd (Put cks etg kc f st rq)) = None" by simp
  from r show "index (snd (Put cks etg kc f st rq)) = index st" by simp
  from r show "content (snd (Put cks etg kc f st rq)) = content st" by simp
next
  assume "\<not> if_match_ok (SoftDelete kc) (index st) rq \<or>
    \<not> mime_allowed (AllowedMimeTypes kc) (p_contentType rq) \<or>
    MaxSize kc < length (p_body rq) \<or> io_error_at f \<noteq> None \<or>
    (disconnect_at f = Some d \<and> d < length (p_body rq))"
  then show "isl (fst (Put cks etg kc f st rq))" by (rule Put_fails)
next
  assume "if_match_ok (SoftDelete kc) (index st) rq \<and>
    \<not> mime_allowed (AllowedMimeTypes kc) (p_contentType rq)"
  then show "fst (Put cks etg kc f st rq) = Inl UnsupportedMediaType"
    by (simp add: Put_def)
next
  assume a: "if_match_ok (SoftDelete kc) (index st) rq \<and>
    mime_allowed (AllowedMimeTypes kc) (p_contentType rq) \<and>
    io_error_at f = Some s \<and> disconnect_at f = None \<and>
    length (p_body rq) \<le> MaxSize kc"
  then have "stream (MaxSize kc) None [] (p_body rq) = Inr (p_body rq)"
    using stream_within_limit [of "[]" "p_body rq" "MaxSize kc"] by simp
  with a show "fst (Put cks etg kc f st rq) = Inl IOError"
    by (cases s) (simp_all add: Put_def Index_Put_def Let_def)
next
  assume a: "if_match_ok (SoftDelete kc) (index st) rq \<and>
    mime_allowed (AllowedMimeTypes kc) (p_contentType rq) \<and>
    io_error_at f = None \<and> disconnect_at f = Some d \<and>
    d < length (p_body rq) \<and> d \<le> MaxSize kc"
  then have "stream (MaxSize kc) (Some d) [] (p_body rq) = Inl Cancelled"
    by (intro stream_cancelled) simp_all
  with a show "fst (Put cks etg kc f st rq) = Inl Cancelled"
    by (simp add: Put_def)
next
  assume a: "if_match_ok (SoftDelete kc) (index st) rq \<and>
    mime_allowed (AllowedMimeTypes kc) (p_contentType rq) \<and>
    io_error_at f \<noteq> Some StreamToTemp \<and> disconnect_at f = None \<and>
    length (p_body rq) = MaxSize kc + 1"
  then have "stream (MaxSize kc) None [] (p_body rq) = Inl PayloadTooLarge"
    by (intro stream_too_large) simp_all
  with a show "Put cks etg kc f st rq = (Inl PayloadTooLarge, st\<lparr>temp := None\<rparr>)"
    by (simp add: Put_def discard_def)
next
  assume a: "if_match_ok (SoftDelete kc) (index st) rq \<and>
    mime_allowed (AllowedMimeTypes kc) (p_contentType rq) \<and>
    io_error_at f = None \<and> disconnect_at f = None \<and>
    length (p_body rq) = MaxSize kc"
  then have s: "stream (MaxSize kc) None [] (p_body rq) = Inr (p_body rq)"
    using stream_within_limit [of "[]" "p_body rq" "MaxSize kc"] by simp
  from a s show "fst (Put cks etg kc f st rq) =
      Inr (new_metadata cks etg (index st) rq (p_body rq))"
    by (simp add: Put_def Index_Put_def Let_def)
  from a s show "index (snd (Put cks etg kc f st rq)) (p_key rq) =
      Some (new_metadata cks etg (index st) rq (p_body rq))"
    by (simp add: Put_def Index_Put_def Let_def)
  from a s show "content (snd (Put cks etg kc f st rq)) (p_key rq) = Some (p_body rq)"
    by (simp add: Put_def Index_Put_def Let_def)
  from a s show "temp (snd (Put cks etg kc f st rq)) = None"
    by (simp add: Put_def Index_Put_def Let_def)
qed

theorem put_failure_leaves_store_witness:
  "Put (map (char_of \<circ> unat)) (curry fst)
     \<lparr> BasePath = ''/blob'', kv_UploadPath = ''/data/uploads'', kv_LevelDBPath = ''/data/db'',
       SoftDelete = True, SignSecret = ''s'', MaxSize = 4, AllowedMimeTypes = [''image/''],
       Debug = False \<rparr>
     \<lparr> io_error_at = Some CommitMetadata, disconnect_at = None \<rparr>
     \<lparr> index = map_of [(''a.png'', \<lparr> md_key = ''a.png'', contentType = ''image/png'',
          sizeBytes = 1, checksum = ''c'', createdAt = 1, modifiedAt = 1, deletedAt = None,
          etag = ''e'' \<rparr>)],
       content = map_of [(''a.png'', [9])], temp = None \<rparr>
     \<lparr> p_key = ''a.png'', p_body = [1, 2], p_contentType = ''image/png'', p_ifMatch = None,
       p_now = 5 \<rparr> =
     (Inl IOError,
      \<lparr> index = map_of [(''a.png'', \<lparr> md_key = ''a.png'', contentType = ''image/png'',
          sizeBytes = 1, checksum = ''c'', createdAt = 1, modifiedAt = 1, deletedAt = None,
          etag = ''e'' \<rparr>)],
        content = map_of [(''a.png'', [9])], temp = None \<rparr>) \<and>
   fst (Put (map (char_of \<circ> unat)) (curry fst)
     \<lparr> BasePath = ''/blob'', kv_UploadPath = ''/data/uploads'', kv_LevelDBPath = ''/data/db'',
       SoftDelete = True, SignSecret = ''s'', MaxSize = 4, AllowedMimeTypes = [''image/''],
       Debug = False \<rparr>
     \<lparr> io_error_at = None, disconnect_at = None \<rparr>
     \<lparr> index = map_of [], content = map_of [], temp = None \<rparr>
     \<lparr> p_key = ''a.txt'', p_body = [1, 2], p_contentType = ''text/plain'', p_ifMatch = None,
       p_now = 5 \<rparr>) = Inl UnsupportedMediaType \<and>
   fst (Put (map (char_of \<circ> unat)) (curry fst)
     \<lparr> BasePath = ''/blob'', kv_UploadPath = ''/data/uploads'', kv_LevelDBPath = ''/data/db'',
       SoftDelete = True, SignSecret = ''s'', MaxSize = 4, AllowedMimeTypes = [''image/''],
       Debug = False \<rparr>
     \<lparr> io_error_at = None, disconnect_at = Some 1 \<rparr>
     \<lparr> index = map_of [], content = map_of [], temp = None \<rparr>
     \<lparr> p_key = ''a.png'', p_body = [1, 2], p_contentType = ''image/png'', p_ifMatch = None,
       p_now = 5 \<rparr>) = Inl Cancelled \<and>
   Put (map (char_of \<circ> unat)) (curry fst)
     \<lparr> BasePath = ''/blob'', kv_UploadPath = ''/data/uploads'', kv_LevelDBPath = ''/data/db'',
       SoftDelete = True, SignSecret = ''s'', MaxSize = 4, AllowedMimeTypes = [''image/''],
       Debug = False \<rparr>
     \<lparr> io_error_at = None, disconnect_at = None \<rparr>
     \<lparr> index = map_of [], content = map_of [], temp = None \<rparr>
     \<lparr> p_key = ''a.png'', p_body = [1, 2, 3, 4, 5], p_contentType = ''image/png'',
       p_ifMatch = None, p_now = 5 \<rparr> =
     (Inl PayloadTooLarge, \<lparr> index = map_of [], content = map_of [], temp = None \<rparr>) \<and>
   content (snd (Put (map (char_of \<circ> unat)) (curry fst)
     \<lparr> BasePath = ''/blob'', kv_UploadPath = ''/data/uploads'', kv_LevelDBPath = ''/data/db'',
       SoftDelete = True, SignSecret = ''s'', MaxSize = 4, AllowedMimeTypes = [''image/''],
       Debug = False \<rparr>
     \<lparr> io_error_at = None, disconnect_at = None \<rparr>
     \<lparr> index = map_of [], content = map_of [], temp = None \<rparr>
     \<lparr> p_key = ''a.png'', p_body = [1, 2, 3, 4], p_contentType = ''image/png'',
       p_ifMatch = None, p_now = 5 \<rparr>)) ''a.png'' = Some [1, 2, 3, 4]"
proof -
  let ?cks = "map (char_of \<circ> unat) :: byte list \<Rightarrow> string"
  let ?etg = "curry fst :: string \<Rightarrow> nat \<Rightarrow> string"
  let ?kc = "\<lparr> BasePath = ''/blob'', kv_UploadPath = ''/data/uploads'',
       kv_LevelDBPath = ''/data/db'', SoftDelete = True, SignSecret = ''s'', MaxSize = 4,
       AllowedMimeTypes = [''image/''], Debug = False \<rparr>"
  let ?ok = "\<lparr> io_error_at = None, disconnect_at = None \<rparr>"
  let ?commit = "\<lparr> io_error_at = Some CommitMetadata, disconnect_at = None \<rparr>"
  let ?gone = "\<lparr> io_error_at = None, disconnect_at = Some 1 \<rparr>"
  let ?st = "\<lparr> index = map_of [], content = map_of [], temp = None \<rparr>"
  let ?old = "\<lparr> index = map_of [(''a.png'', \<lparr> md_key = ''a.png'',
          contentType = ''image/png'', sizeBytes = 1, checksum = ''c'', createdAt = 1,
          modifiedAt = 1, deletedAt = None, etag = ''e'' \<rparr>)],
       content = map_of [(''a.png'', [9 :: byte])], temp = None \<rparr>"
  let ?txt = "\<lparr> p_key = ''a.txt'', p_body = [1, 2], p_contentType = ''text/plain'',
       p_ifMatch = None, p_now = 5 \<rparr>"
  let ?two = "\<lparr> p_key = ''a.png'', p_body = [1, 2], p_contentType = ''image/png'',
       p_ifMatch = None, p_now = 5 \<rparr>"
  let ?five = "\<lparr> p_key = ''a.png'', p_body = [1, 2, 3, 4, 5], p_contentType = ''image/png'',
       p_ifMatch = None, p_now = 5 \<rparr>"
  let ?four = "\<lparr> p_key = ''a.png'', p_body = [1, 2, 3, 4], p_contentType = ''image/png'',
       p_ifMatch = None, p_now = 5 \<rparr>"
  note t = put_failure_leaves_store [where cks = ?cks and etg = ?etg and kc = ?kc]

  have a1: "if_match_ok (SoftDelete ?kc) (index ?old) ?two \<and>
      mime_allowed (AllowedMimeTypes ?kc) (p_contentType ?two) \<and>
      io_error_at ?commit = Some CommitMetadata \<and> disconnect_at ?commit = None \<and>
      length (p_body ?two) \<le> MaxSize ?kc"
    by (simp add: if_match_ok_def mime_allowed_def HasPrefix_def)
  note ta = t [where f = ?commit and st = ?old and rq = ?two and e = IOError
      and s = CommitMetadata and d = 0]
  from ta a1 have a2: "fst (Put ?cks ?etg ?kc ?commit ?old ?two) = Inl IOError" by blast
  from ta a2 have a3: "snd (Put ?cks ?etg ?kc ?commit ?old ?two) = ?old\<lparr>temp := None\<rparr>"
    by blast
  have "io_error_at ?commit \<noteq> None" by simp
  with ta have a4: "isl (fst (Put ?cks ?etg ?kc ?commit ?old ?two))" by blast
  from a2 a3 have A: "Put ?cks ?etg ?kc ?commit ?old ?two = (Inl IOError, ?old)"
    by (simp add: prod_eq_iff)

  have b1: "if_match_ok (SoftDelete ?kc) (index ?st) ?txt \<and>
      \<not> mime_allowed (AllowedMimeTypes ?kc) (p_contentType ?txt)"
    by (simp add: if_match_ok_def mime_allowed_def HasPrefix_def)
  from t [where f = ?ok and st = ?st and rq = ?txt] b1
  have B: "fst (Put ?cks ?etg ?kc ?ok ?st ?txt) = Inl UnsupportedMediaType" by blast

  have c1: "if_match_ok (SoftDelete ?kc) (index ?st) ?two \<and>
      mime_allowed (AllowedMimeTypes ?kc) (p_contentType ?two) \<and>
      io_error_at ?gone = None \<and> disconnect_at ?gone = Some 1 \<and>
      1 < length (p_body ?two) \<and> 1 \<le> MaxSize ?kc"
    by (simp add: if_match_ok_def mime_allowed_def HasPrefix_def)
  from t [where f = ?gone and st = ?st and rq = ?two and d = 1] c1
  have C: "fst (Put ?cks ?etg ?kc ?gone ?st ?two) = Inl Cancelled" by blast

  have d1: "if_match_ok (SoftDelete ?kc) (index ?st) ?five \<and>
      mime_allowed (AllowedMimeTypes ?kc) (p_contentType ?five) \<and>
      io_error_at ?ok \<noteq> Some StreamToTemp \<and> disconnect_at ?ok = None \<and>
      length (p_body ?five) = MaxSize ?kc + 1"
    by (simp add: if_match_ok_def mime_allowed_def HasPrefix_def)
  from t [where f = ?ok and st = ?st and rq = ?five] d1
  have D: "Put ?cks ?etg ?kc ?ok ?st ?five = (Inl PayloadTooLarge, ?st\<lparr>temp := None\<rparr>)"
    by blast

  have e1: "if_match_ok (SoftDelete ?kc) (index ?st) ?four \<and>
      mime_allowed (AllowedMimeTypes ?kc) (p_contentType ?four) \<and>
      io_error_at ?ok = None \<and> disconnect_at ?ok = None \<and>
      length (p_body ?four) = MaxSize ?kc"
    by (simp add: if_match_ok_def mime_allowed_def HasPrefix_def)
  from t [where f = ?ok and st = ?st and rq = ?four] e1
  have E: "content (snd (Put ?cks ?etg ?kc ?ok ?st ?four)) (p_key ?four) =
      Some (p_body ?four)" by blast

  from A B C D E a4 show ?thesis by simp
qed

end
